theory Spec2Isabelle
  imports Complex_Main "HOL-Library.AList"
begin

section \<open>Python values, strings and dictionaries\<close>

text \<open>
  A Python \<open>str\<close> is a sequence of Unicode code points; field names are ASCII and are
  kept as HOL strings. \<open>u\<close> turns an ASCII literal into its code points.
\<close>

type_synonym ustr = "nat list"

definition u :: "string \<Rightarrow> ustr" where
  "u s = map of_char s"

text \<open>
  A \<open>float\<close> that comes from a decimal without sign: a double, kept as the rational it
  is equal to, or \<open>inf\<close>, which a decimal too large for a double converts to.
\<close>

datatype pyfloat = Finite rat | Infinity

text \<open>The values a listing record holds.\<close>

datatype pyval = PNone | PBool bool | PInt int | PFloat pyfloat | PStr ustr

fun truthy :: "pyval \<Rightarrow> bool" where
  "truthy PNone = False"
| "truthy (PBool b) = b"
| "truthy (PInt i) = (i \<noteq> 0)"
| "truthy (PFloat (Finite r)) = (r \<noteq> 0)"
| "truthy (PFloat Infinity) = True"
| "truthy (PStr s) = (s \<noteq> [])"

text \<open>
  Python compares and hashes \<open>True\<close>, \<open>1\<close> and \<open>1.0\<close> as one key. \<open>py_key\<close> maps
  a value to the representative of its class, so that \<open>x == y\<close> in Python is
  \<open>py_key x = py_key y\<close>.
\<close>

fun py_key :: "pyval \<Rightarrow> pyval" where
  "py_key (PBool b) = PInt (if b then 1 else 0)"
| "py_key (PFloat (Finite r)) =
     (if r = of_int \<lfloor>r\<rfloor> then PInt \<lfloor>r\<rfloor> else PFloat (Finite r))"
| "py_key v = v"

text \<open>
  A \<open>dict\<close> with string keys, in insertion order. \<open>d[k] = v\<close> is \<open>AList.update\<close>:
  it replaces the value in place when the key exists and appends the item otherwise.
\<close>

type_synonym pydict = "(string \<times> pyval) list"

definition py_get :: "pydict \<Rightarrow> string \<Rightarrow> pyval" where
  "py_get d k = (case map_of d k of None \<Rightarrow> PNone | Some v \<Rightarrow> v)"

section \<open>Reconciler: merging a detail record into an index record\<close>

definition ALWAYS_PREFER_DETAIL :: "string list" where
  "ALWAYS_PREFER_DETAIL =
     [''description'', ''agency_name'', ''agency_address'',
      ''energy_rating'', ''ges_rating'', ''floor'', ''exposure'',
      ''heating_type'', ''published_date'', ''modified_date'',
      ''reference'', ''mandate_type'', ''energy_consumption'',
      ''ges_emission'', ''energy_bill_min'', ''energy_bill_max'',
      ''price_without_fees'', ''agency_fees_percent'']"

text \<open>One iteration of \<open>for key, value in detail.items()\<close> in \<open>_enrich_with_details\<close>.\<close>

definition merge_item :: "string \<times> pyval \<Rightarrow> pydict \<Rightarrow> pydict" where
  "merge_item kv merged =
     (if truthy (snd kv) \<and>
         (\<not> truthy (py_get merged (fst kv)) \<or> fst kv \<in> set ALWAYS_PREFER_DETAIL)
      then AList.update (fst kv) (snd kv) merged
      else merged)"

text \<open>\<open>merged = prop_by_url[url].copy()\<close> followed by the loop over the detail items.\<close>

definition merge_detail :: "pydict \<Rightarrow> pydict \<Rightarrow> pydict" where
  "merge_detail index_rec detail = fold merge_item detail index_rec"

section \<open>Orchestrator: the total-page estimate\<close>

text \<open>
  \<open>listings_per_page = max(len(first_page_properties), 24)\<close> and
  \<open>total_pages = (total_count + listings_per_page - 1) // listings_per_page\<close>.
  Python's \<open>//\<close> on integers is floor division, as \<open>div\<close> on \<open>int\<close> is.
\<close>

definition listings_per_page :: "nat \<Rightarrow> int" where
  "listings_per_page n_cards = max (int n_cards) 24"

definition estimate_total_pages :: "int \<Rightarrow> nat \<Rightarrow> int" where
  "estimate_total_pages total_count n_cards =
     (total_count + listings_per_page n_cards - 1) div listings_per_page n_cards"

section \<open>Reconciler: deduplication by listing id\<close>

text \<open>
  The loop of \<open>scrape\<close> that removes duplicates. \<open>seen\<close> is a Python set, so it
  holds each id up to Python equality.
\<close>

fun dedupe_loop :: "pyval set \<Rightarrow> pydict list \<Rightarrow> pydict list \<Rightarrow> pydict list" where
  "dedupe_loop seen unique_properties [] = unique_properties"
| "dedupe_loop seen unique_properties (prop # rest) =
     (let listing_id = py_get prop ''listing_id'' in
      if truthy listing_id \<and> py_key listing_id \<notin> seen
      then dedupe_loop (insert (py_key listing_id) seen) (unique_properties @ [prop]) rest
      else dedupe_loop seen unique_properties rest)"

definition dedupe :: "pydict list \<Rightarrow> pydict list" where
  "dedupe all_properties = dedupe_loop {} [] all_properties"

section \<open>The Python runtime\<close>

text \<open>
  What the program calls and does not define is a parameter of the model:
  \<^item> \<open>decimal_value\<close>: the value of the Unicode decimal digits beyond ASCII (the
    characters that \<open>\d\<close> matches and \<open>int\<close> and \<open>float\<close> accept). The first of them
    is U+0660 (1632), so no character below it other than \<open>0\<close> to \<open>9\<close> is a digit,
    whatever the table says;
  \<^item> \<open>lower_nonascii\<close>: \<open>str.lower\<close> on a string that has a character beyond ASCII;
  \<^item> \<open>int_max_str_digits\<close>: \<open>sys.get_int_max_str_digits()\<close>, the number of digits above
    which \<open>int(s)\<close> raises \<open>ValueError\<close>; it is 4300 unless the interpreter is set up
    otherwise, and 0 stands for no limit;
  \<^item> \<open>round_double\<close>: the double nearest to a rational that is not negative, \<open>inf\<close> when
    the rational is too large;
  \<^item> \<open>re_search\<close>: \<open>re.search\<close>, see below.
\<close>

text \<open>
  The regular expressions of \<open>utils.py\<close>, by name. \<open>re.search\<close> is the library's: the
  model takes its answer as given. For a match it is the list of the groups, group 0 (the
  whole match) first.
  \<^item> \<open>ROOMS_RE\<close>: \<open>(\d+)\s*pi\xe8ces?\<close>
  \<^item> \<open>AREA_RE\<close>: \<open>(\d+(?:[,\.]\d+)?)\s*m\xb2\<close>
  \<^item> \<open>POSTAL_RE\<close>: \<open>(\d{5})\s+([^(]+?)(?:\s*\(|$)\<close>
  \<^item> \<open>DISTRICT_RE\<close>: \<open>\(([^)]+)\)\<close>
  \<^item> \<open>K_RE\<close>: \<open>([\d,\.]+)\s*k\<close>
  \<^item> \<open>NUM_RE\<close>: \<open>([\d\s\xa0]+)\<close>
  \<^item> \<open>PRICE_RE\<close>: \<open>(\d[\d\s\xa0]*)\s*\u20ac(?!\s*/\s*m)\<close>
  \<^item> \<open>PRICE_PER_SQM_RE\<close>: \<open>(\d[\d\s\xa0,]*)\s*\u20ac\s*/\s*m\xb2\<close>
  \<^item> \<open>FEES_RE\<close>: \<open>Honoraires\s*:\s*([\d,\.]+)\s*%\<close>
  \<^item> \<open>PRICE_HORS_RE\<close>: \<open>\(([\d\s\xa0]+)\s*\u20ac\s*hors\s*honoraires\)\<close>
  \<^item> \<open>FLOOR_RE\<close>: \<open>(\d+)(?:er|\xe8me|e)?\s*\xe9tage|Rez-de-chauss\xe9e\<close>
  \<^item> \<open>EXPOSURE_RE\<close>: \<open>Expos\xe9?\s+([\w\s]+?)(?:\n|$|\.)\<close>
  \<^item> \<open>HEATING_RE\<close>: \<open>Chauffage\s*:\s*([^\.]+?)(?:\n|$|\.)\<close>
  \<^item> \<open>DPE_DATE_RE\<close>: \<open>Date de r\xe9alisation du DPE\s*:\s*(\d+\s+\w+\s+\d+)\<close>
  \<^item> \<open>RATING_RE\<close>: \<open>\b([A-G])\b.*?(\d+)\s*kWh\<close>, with \<open>re.DOTALL\<close>
  \<^item> \<open>GES_RE\<close>: \<open>\xe9missions.*?([A-G])\s*(\d+)\s*kg\s*CO\<close>, with
    \<open>re.IGNORECASE | re.DOTALL\<close>
  \<^item> \<open>BILL_RE\<close>: \<open>Entre\s*([\d\s]+)\s*\u20ac\s*et\s*([\d\s]+)\s*\u20ac\s*par\s*an\<close>
  \<^item> \<open>REF_RE\<close>: \<open>R\xe9f\.\s*(?:de l'annonce\s*)?:\s*(\S+)\<close>
  \<^item> \<open>PUB_RE\<close>: \<open>Publi\xe9e?\s+le\s+(\d+\s+\w+\.?\s+\d+)\<close>
  \<^item> \<open>MOD_RE\<close>: \<open>Modifi\xe9e?\s+le\s+(\d+\s+\w+\.?\s+\d+)\<close>
\<close>

datatype pattern =
    ROOMS_RE | AREA_RE | POSTAL_RE | DISTRICT_RE
  | K_RE | NUM_RE
  | PRICE_RE | PRICE_PER_SQM_RE | FEES_RE | PRICE_HORS_RE | FLOOR_RE
  | EXPOSURE_RE | HEATING_RE | DPE_DATE_RE | RATING_RE | GES_RE | BILL_RE
  | REF_RE | PUB_RE | MOD_RE

record pyrt =
  decimal_value :: "nat \<Rightarrow> nat option"
  lower_nonascii :: "ustr \<Rightarrow> ustr"
  int_max_str_digits :: nat
  round_double :: "rat \<Rightarrow> pyfloat"
  re_search :: "pattern \<Rightarrow> ustr \<Rightarrow> ustr list option"

text \<open>\<open>m.group(i)\<close>.\<close>

definition grp :: "ustr list \<Rightarrow> nat \<Rightarrow> ustr" where
  "grp m i = (if i < length m then m ! i else [])"

datatype pyerror = ValueError | TypeError | AttributeError

definition digit_value :: "'a pyrt_scheme \<Rightarrow> nat \<Rightarrow> nat option" where
  "digit_value rt c =
     (if 48 \<le> c \<and> c \<le> 57 then Some (c - 48)
      else if c < 1632 then None
      else decimal_value rt c)"

definition is_digit :: "'a pyrt_scheme \<Rightarrow> nat \<Rightarrow> bool" where
  "is_digit rt c = (digit_value rt c \<noteq> None)"

fun int_of_digits :: "'a pyrt_scheme \<Rightarrow> int \<Rightarrow> ustr \<Rightarrow> int option" where
  "int_of_digits rt acc [] = Some acc"
| "int_of_digits rt acc (c # cs) =
     (case digit_value rt c of
        None \<Rightarrow> None
      | Some d \<Rightarrow> int_of_digits rt (10 * acc + int d) cs)"

text \<open>
  \<open>int(s)\<close> for the arguments the program passes, which are strings of decimal digits:
  the empty string and a string with another character raise \<open>ValueError\<close>, and so does
  a string with more digits than the interpreter's limit, leading zeros counted. (The
  sign, blanks and underscores that \<open>int\<close> also reads never reach it here.) Below the
  limit Python's integers are unbounded.
\<close>

definition exceeds_digit_limit :: "'a pyrt_scheme \<Rightarrow> ustr \<Rightarrow> bool" where
  "exceeds_digit_limit rt s = (0 < int_max_str_digits rt \<and> int_max_str_digits rt < length s)"

definition py_int :: "'a pyrt_scheme \<Rightarrow> ustr \<Rightarrow> pyerror + int" where
  "py_int rt s =
     (if s = [] then Inl ValueError
      else case int_of_digits rt 0 s of
             None \<Rightarrow> Inl ValueError
           | Some n \<Rightarrow> if exceeds_digit_limit rt s then Inl ValueError else Inr n)"

definition ascii_lower :: "nat \<Rightarrow> nat" where
  "ascii_lower c = (if 65 \<le> c \<and> c \<le> 90 then c + 32 else c)"

definition py_lower :: "'a pyrt_scheme \<Rightarrow> ustr \<Rightarrow> ustr" where
  "py_lower rt s =
     (if list_all (\<lambda>c. c < 128) s then map ascii_lower s else lower_nonascii rt s)"

text \<open>
  \<open>float(s)\<close> for the arguments the program passes, which are strings of decimal digits
  and dots: digits, at most one dot, and a digit somewhere; anything else raises
  \<open>ValueError\<close>. The value is the double nearest to the decimal; \<open>float\<close> has no limit
  on the digits.
\<close>

definition py_float :: "'a pyrt_scheme \<Rightarrow> ustr \<Rightarrow> pyerror + pyfloat" where
  "py_float rt s =
     (let int_part = takeWhile (\<lambda>c. c \<noteq> 46) s;
          rest = dropWhile (\<lambda>c. c \<noteq> 46) s;
          frac_part = (case rest of [] \<Rightarrow> [] | _ # fs \<Rightarrow> fs)
      in if int_part = [] \<and> frac_part = [] then Inl ValueError
         else case (int_of_digits rt 0 int_part, int_of_digits rt 0 frac_part) of
                (Some a, Some b) \<Rightarrow>
                  Inr (round_double rt (of_int a + of_int b / 10 ^ length frac_part))
              | _ \<Rightarrow> Inl ValueError)"

text \<open>\<open>s.replace(",", ".")\<close>.\<close>

definition comma_to_dot :: "ustr \<Rightarrow> ustr" where
  "comma_to_dot s = map (\<lambda>c. if c = 44 then 46 else c) s"

text \<open>The characters \<open>str.strip()\<close> removes: those for which \<open>str.isspace\<close> holds.\<close>

definition is_space :: "nat \<Rightarrow> bool" where
  "is_space c =
     ((9 \<le> c \<and> c \<le> 13) \<or> (28 \<le> c \<and> c \<le> 32) \<or> c = 133 \<or> c = 160 \<or> c = 5760 \<or>
      (8192 \<le> c \<and> c \<le> 8202) \<or> c = 8232 \<or> c = 8233 \<or> c = 8239 \<or> c = 8287 \<or>
      c = 12288)"

definition py_strip :: "ustr \<Rightarrow> ustr" where
  "py_strip s = rev (dropWhile is_space (rev (dropWhile is_space s)))"

text \<open>\<open>s.rstrip("/")\<close> and \<open>s.split(sep)\<close> for a separator of one character.\<close>

definition rstrip_slash :: "ustr \<Rightarrow> ustr" where
  "rstrip_slash s = rev (dropWhile (\<lambda>c. c = 47) (rev s))"

fun py_split :: "nat \<Rightarrow> ustr \<Rightarrow> ustr list" where
  "py_split sep [] = [[]]"
| "py_split sep (c # cs) =
     (if c = sep then [] # py_split sep cs
      else case py_split sep cs of
             [] \<Rightarrow> [[c]]
           | p # ps \<Rightarrow> (c # p) # ps)"

text \<open>\<open>s.startswith(p)\<close> and \<open>needle in s\<close>.\<close>

fun starts_with :: "ustr \<Rightarrow> ustr \<Rightarrow> bool" where
  "starts_with s [] = True"
| "starts_with [] (p # ps) = False"
| "starts_with (c # cs) (p # ps) = (c = p \<and> starts_with cs ps)"

fun contains :: "ustr \<Rightarrow> ustr \<Rightarrow> bool" where
  "contains [] needle = (needle = [])"
| "contains (c # cs) needle = (starts_with (c # cs) needle \<or> contains cs needle)"

text \<open>
  \<open>try: return f(...)\<close> / \<open>except ValueError: pass\<close>: a \<open>ValueError\<close> becomes no value,
  any other exception goes on.
\<close>

definition except_value_error :: "pyerror + 'a \<Rightarrow> pyerror + 'a option" where
  "except_value_error r =
     (case r of Inr x \<Rightarrow> Inr (Some x) | Inl ValueError \<Rightarrow> Inr None | Inl e \<Rightarrow> Inl e)"

text \<open>
  The integer a string of ASCII digits denotes, digit values given most significant
  first: the statement of what \<open>parse_price\<close> is to return.
\<close>

definition denoted_integer :: "nat list \<Rightarrow> int" where
  "denoted_integer ds = (\<Sum>i<length ds. int (ds ! i) * 10 ^ (length ds - 1 - i))"

text \<open>\<open>x * 1000\<close> for a float \<open>x\<close>.\<close>

definition times_1000 :: "'a pyrt_scheme \<Rightarrow> pyfloat \<Rightarrow> pyfloat" where
  "times_1000 rt x = (case x of Finite r \<Rightarrow> round_double rt (r * 1000) | Infinity \<Rightarrow> Infinity)"

text \<open>
  A runtime for the examples: no digit beyond ASCII, \<open>lower\<close> the identity beyond ASCII,
  the interpreter's own limit of 4300 digits, no regular expression ever matching, and
  the rounding left as the identity: no example below converts a float with success, so
  the rounding is never applied there.
\<close>

definition plain_runtime :: pyrt where
  "plain_runtime =
     \<lparr> decimal_value = (\<lambda>c. None), lower_nonascii = (\<lambda>s. s), int_max_str_digits = 4300,
       round_double = Finite, re_search = (\<lambda>p s. None) \<rparr>"

section \<open>Field parsers\<close>

text \<open>
  \<open>parse_price\<close>: \<open>re.sub(r"[^\d]", "", text)\<close> keeps the decimal digits; the
  \<open>try\<close> around \<open>int(clean)\<close> turns a \<open>ValueError\<close> into \<open>None\<close>.
\<close>

definition parse_price :: "'a pyrt_scheme \<Rightarrow> ustr \<Rightarrow> pyerror + int option" where
  "parse_price rt text =
     (if text = [] then Inr None
      else
        let clean = filter (is_digit rt) text in
        if clean \<noteq> [] then
          (case py_int rt clean of
             Inr n \<Rightarrow> Inr (Some n)
           | Inl ValueError \<Rightarrow> Inr None
           | Inl e \<Rightarrow> Inl e)
        else Inr None)"

text \<open>\<open>parse_price_per_sqm\<close>: the "k" notation first, then a plain number.\<close>

definition parse_price_per_sqm :: "'a pyrt_scheme \<Rightarrow> ustr \<Rightarrow> pyerror + pyfloat option" where
  "parse_price_per_sqm rt text =
     (if text = [] then Inr None
      else
        case (case re_search rt K_RE (py_lower rt text) of
                None \<Rightarrow> Inr None
              | Some k_match \<Rightarrow>
                  except_value_error (py_float rt (comma_to_dot (grp k_match 1)))) of
          Inl e \<Rightarrow> Inl e
        | Inr (Some v) \<Rightarrow> Inr (Some (times_1000 rt v))
        | Inr None \<Rightarrow>
            (case re_search rt NUM_RE text of
               None \<Rightarrow> Inr None
             | Some num_match \<Rightarrow>
                 let clean = filter (is_digit rt) (grp num_match 1) in
                 if clean \<noteq> [] then except_value_error (py_float rt clean)
                 else Inr None))"

text \<open>\<open>d.update(other)\<close>.\<close>

definition dict_update :: "pydict \<Rightarrow> pydict \<Rightarrow> pydict" where
  "dict_update d other = fold (\<lambda>kv acc. AList.update (fst kv) (snd kv) acc) other d"

text \<open>The table \<open>property_types\<close> of \<open>parse_title_text\<close>, in its order.\<close>

definition TITLE_PROPERTY_TYPES :: "(ustr \<times> ustr) list" where
  "TITLE_PROPERTY_TYPES =
     [(u ''appartement'', u ''apartment''),
      (u ''maison'', u ''house''),
      (u ''studio'', u ''studio''),
      (u ''duplex'', u ''duplex''),
      (u ''loft'', u ''loft''),
      (u ''terrain'', u ''land''),
      (u ''parking'', u ''parking''),
      (u ''commerce'', u ''commercial''),
      (u ''bureaux'', u ''office''),
      (u ''villa'', u ''house''),
      (u ''immeuble'', u ''building'')]"

text \<open>
  \<open>parse_title_text\<close>. \<open>int\<close> and \<open>float\<close> are not guarded here, so an exception of
  theirs leaves the function.
\<close>

definition title_property_type :: "'a pyrt_scheme \<Rightarrow> ustr \<Rightarrow> pydict" where
  "title_property_type rt title =
     (case find (\<lambda>entry. contains (py_lower rt title) (fst entry)) TITLE_PROPERTY_TYPES of
        None \<Rightarrow> []
      | Some entry \<Rightarrow> [(''property_type'', PStr (snd entry))])"

definition title_rooms :: "'a pyrt_scheme \<Rightarrow> ustr \<Rightarrow> pydict \<Rightarrow> pyerror + pydict" where
  "title_rooms rt title result =
     (case re_search rt ROOMS_RE title of
        None \<Rightarrow> Inr result
      | Some rooms_match \<Rightarrow>
          (case py_int rt (grp rooms_match 1) of
             Inl e \<Rightarrow> Inl e
           | Inr n \<Rightarrow> Inr (AList.update ''rooms'' (PInt n) result)))"

definition title_area :: "'a pyrt_scheme \<Rightarrow> ustr \<Rightarrow> pydict \<Rightarrow> pyerror + pydict" where
  "title_area rt title result =
     (case re_search rt AREA_RE title of
        None \<Rightarrow> Inr result
      | Some area_match \<Rightarrow>
          (case py_float rt (comma_to_dot (grp area_match 1)) of
             Inl e \<Rightarrow> Inl e
           | Inr a \<Rightarrow> Inr (AList.update ''living_area'' (PFloat a) result)))"

definition title_postal :: "'a pyrt_scheme \<Rightarrow> ustr \<Rightarrow> pydict \<Rightarrow> pydict" where
  "title_postal rt title result =
     (case re_search rt POSTAL_RE title of
        None \<Rightarrow> result
      | Some postal_match \<Rightarrow>
          AList.update ''city'' (PStr (py_strip (grp postal_match 2)))
            (AList.update ''postal_code'' (PStr (grp postal_match 1)) result))"

definition title_district :: "'a pyrt_scheme \<Rightarrow> ustr \<Rightarrow> pydict \<Rightarrow> pydict" where
  "title_district rt title result =
     (case re_search rt DISTRICT_RE title of
        None \<Rightarrow> result
      | Some district_match \<Rightarrow> AList.update ''district'' (PStr (grp district_match 1)) result)"

definition parse_title_text :: "'a pyrt_scheme \<Rightarrow> ustr \<Rightarrow> pyerror + pydict" where
  "parse_title_text rt title =
     (case title_rooms rt title (title_property_type rt title) of
        Inl e \<Rightarrow> Inl e
      | Inr r1 \<Rightarrow>
          (case title_area rt title r1 of
             Inl e \<Rightarrow> Inl e
           | Inr r2 \<Rightarrow> Inr (title_district rt title (title_postal rt title r2))))"

section \<open>Configuration and the scraper object\<close>

definition DEFAULT_TIMEOUT :: int where
  "DEFAULT_TIMEOUT = 120"

definition DEFAULT_MAX_WORKERS :: int where
  "DEFAULT_MAX_WORKERS = 10"

definition SEARCH_URL :: ustr where
  "SEARCH_URL = u ''https://www.bienici.com/recherche''"

definition LOCATIONS :: "(ustr \<times> ustr) list" where
  "LOCATIONS =
     [(u ''paris'', u ''paris-75000''),
      (u ''lyon'', u ''lyon-69000''),
      (u ''marseille'', u ''marseille-13000''),
      (u ''toulouse'', u ''toulouse-31000''),
      (u ''nice'', u ''nice-06000''),
      (u ''nantes'', u ''nantes-44000''),
      (u ''montpellier'', u ''montpellier-34000''),
      (u ''strasbourg'', u ''strasbourg-67000''),
      (u ''bordeaux'', u ''bordeaux-33000''),
      (u ''lille'', u ''lille-59000''),
      (u ''rennes'', u ''rennes-35000''),
      (u ''reims'', u ''reims-51100''),
      (u ''saint-etienne'', u ''saint-etienne-42000''),
      (u ''le-havre'', u ''le-havre-76600''),
      (u ''toulon'', u ''toulon-83000''),
      (u ''grenoble'', u ''grenoble-38000''),
      (u ''dijon'', u ''dijon-21000''),
      (u ''angers'', u ''angers-49000''),
      (u ''nimes'', u ''nimes-30000''),
      (u ''aix-en-provence'', u ''aix-en-provence-13100'')]"

definition CONTRACT_TYPES :: "(ustr \<times> ustr) list" where
  "CONTRACT_TYPES =
     [(u ''buy'', u ''achat''),
      (u ''rent'', u ''location''),
      (u ''new'', u ''achat'')]"

definition PROPERTY_TYPES :: "(ustr \<times> ustr) list" where
  "PROPERTY_TYPES =
     [(u ''all'', []),
      (u ''apartment'', u ''appartement''),
      (u ''house'', u ''maisonvilla''),
      (u ''land'', u ''terrain''),
      (u ''parking'', u ''parking''),
      (u ''commercial'', u ''commerce''),
      (u ''office'', u ''bureaux'')]"

text \<open>\<open>table.get(key, default)\<close>.\<close>

definition get_default :: "(ustr \<times> ustr) list \<Rightarrow> ustr \<Rightarrow> ustr \<Rightarrow> ustr" where
  "get_default table k dflt = (case map_of table k of None \<Rightarrow> dflt | Some v \<Rightarrow> v)"

text \<open>
  The object that \<open>BieniciScraper.__init__\<close> builds. An argument left out is \<open>None\<close>
  here and takes the default of the signature: \<open>api_key = None\<close>, \<open>max_workers = 5\<close>,
  \<open>timeout = DEFAULT_TIMEOUT\<close>. \<open>env_key\<close> is \<open>SCRAPINGANT_API_KEY\<close>, the value of
  the environment variable, or the empty string when it is not set.
\<close>

record scraper =
  api_key :: ustr
  max_workers :: int
  timeout :: int

definition scraper_init ::
    "ustr \<Rightarrow> ustr option \<Rightarrow> int option \<Rightarrow> int option \<Rightarrow> pyerror + scraper" where
  "scraper_init env_key api_key_arg max_workers_arg timeout_arg =
     (let key = (case api_key_arg of
                   None \<Rightarrow> env_key
                 | Some k \<Rightarrow> if k \<noteq> [] then k else env_key) in
      if key = [] then Inl ValueError
      else Inr \<lparr> api_key = key,
                 max_workers = (case max_workers_arg of None \<Rightarrow> 5 | Some w \<Rightarrow> w),
                 timeout = (case timeout_arg of None \<Rightarrow> DEFAULT_TIMEOUT | Some t \<Rightarrow> t) \<rparr>)"

section \<open>Search URLs\<close>

text \<open>\<open>str(n)\<close> for a natural number: its decimal digits.\<close>

fun str_nat :: "nat \<Rightarrow> ustr" where
  "str_nat n = (if n < 10 then [48 + n] else str_nat (n div 10) @ [48 + n mod 10])"

definition str_int :: "int \<Rightarrow> ustr" where
  "str_int i = (if i < 0 then 45 # str_nat (nat (- i)) else str_nat (nat i))"

text \<open>\<open>sep.join(parts)\<close>.\<close>

fun py_join :: "ustr \<Rightarrow> ustr list \<Rightarrow> ustr" where
  "py_join sep [] = []"
| "py_join sep [p] = p"
| "py_join sep (p # q # ps) = p @ sep @ py_join sep (q # ps)"

definition url_parts :: "'a pyrt_scheme \<Rightarrow> ustr \<Rightarrow> ustr \<Rightarrow> ustr \<Rightarrow> ustr list" where
  "url_parts rt location contract_type property_type =
     (let location_code = get_default LOCATIONS (py_lower rt location) location;
          contract = get_default CONTRACT_TYPES (py_lower rt contract_type) (u ''achat'');
          prop_type = get_default PROPERTY_TYPES (py_lower rt property_type) []
      in [SEARCH_URL, contract, location_code] @ (if prop_type \<noteq> [] then [prop_type] else []))"

definition build_search_url ::
    "'a pyrt_scheme \<Rightarrow> ustr \<Rightarrow> ustr \<Rightarrow> ustr \<Rightarrow> int \<Rightarrow> ustr" where
  "build_search_url rt location contract_type property_type page =
     py_join (u ''/'') (url_parts rt location contract_type property_type)
       @ (if page > 1 then u ''?page='' @ str_int page else [])"

section \<open>The detail-page extractor\<close>

text \<open>
  What \<open>parse_property_detail\<close> reads from \<open>BeautifulSoup(html, "lxml")\<close>:
  \<^item> \<open>h1_text\<close>: \<open>soup.find("h1").get_text(strip=True)\<close>, when the page has an \<open>h1\<close>;
  \<^item> \<open>page_text\<close>: \<open>soup.get_text()\<close>;
  \<^item> \<open>energy_section_text\<close>: the text of the parent of the string found for
    "Performance \xe9nerg\xe9tique", when there is one;
  \<^item> \<open>letter_nodes\<close>: the strings matching \<open>^\s*[A-G]\s*$\<close> in document order, each with
    \<open>str(parent.get("class", []))\<close> when it has a parent;
  \<^item> \<open>agency_section\<close>: for the parent of the string found for "\xc0 propos de l'agence",
    the stripped text of its \<open>h1\<close> if it has one, and the stripped texts of its \<open>div\<close>,
    \<open>span\<close> and \<open>p\<close> descendants in order;
  \<^item> \<open>description_text\<close>: the stripped text of the element next to (or around) the
    parent of the string found for "Descriptif de ce", when all of them exist.
\<close>

record detail_soup =
  h1_text :: "ustr option"
  page_text :: ustr
  energy_section_text :: "ustr option"
  letter_nodes :: "(ustr \<times> ustr option) list"
  agency_section :: "(ustr option \<times> ustr list) option"
  description_text :: "ustr option"

text \<open>\<open>parts[-1].split("?")[0] if parts else ""\<close> for \<open>parts = url.rstrip("/").split("/")\<close>.\<close>

definition listing_id_of_url :: "ustr \<Rightarrow> ustr" where
  "listing_id_of_url url =
     (let parts = py_split 47 (rstrip_slash url) in
      if parts \<noteq> [] then
        (case py_split 63 (last parts) of [] \<Rightarrow> [] | first # _ \<Rightarrow> first)
      else [])"

definition opt_int :: "int option \<Rightarrow> pyval" where
  "opt_int r = (case r of None \<Rightarrow> PNone | Some n \<Rightarrow> PInt n)"

definition opt_float :: "pyfloat option \<Rightarrow> pyval" where
  "opt_float r = (case r of None \<Rightarrow> PNone | Some x \<Rightarrow> PFloat x)"

text \<open>The blocks of \<open>parse_property_detail\<close>, in its order; each takes and returns \<open>prop\<close>.\<close>

definition step_title :: "'a pyrt_scheme \<Rightarrow> detail_soup \<Rightarrow> pydict \<Rightarrow> pyerror + pydict" where
  "step_title rt soup prop =
     (case h1_text soup of
        None \<Rightarrow> Inr prop
      | Some title \<Rightarrow>
          (case parse_title_text rt title of
             Inl e \<Rightarrow> Inl e
           | Inr parsed \<Rightarrow> Inr (dict_update (AList.update ''title'' (PStr title) prop) parsed)))"

definition step_price :: "'a pyrt_scheme \<Rightarrow> detail_soup \<Rightarrow> pydict \<Rightarrow> pyerror + pydict" where
  "step_price rt soup prop =
     (case re_search rt PRICE_RE (page_text soup) of
        None \<Rightarrow> Inr prop
      | Some price_match \<Rightarrow>
          (case parse_price rt (grp price_match 0) of
             Inl e \<Rightarrow> Inl e
           | Inr v \<Rightarrow> Inr (AList.update ''price'' (opt_int v) prop)))"

definition step_price_per_sqm ::
    "'a pyrt_scheme \<Rightarrow> detail_soup \<Rightarrow> pydict \<Rightarrow> pyerror + pydict" where
  "step_price_per_sqm rt soup prop =
     (case re_search rt PRICE_PER_SQM_RE (page_text soup) of
        None \<Rightarrow> Inr prop
      | Some price_per_sqm_match \<Rightarrow>
          (case parse_price_per_sqm rt (grp price_per_sqm_match 0) of
             Inl e \<Rightarrow> Inl e
           | Inr v \<Rightarrow> Inr (AList.update ''price_per_sqm'' (opt_float v) prop)))"

text \<open>
  \<open>prop["agency_fees_percent"] = float(fees_match.group(1).replace(",", "."))\<close>, with no
  \<open>try\<close> around it.
\<close>

definition step_fees :: "'a pyrt_scheme \<Rightarrow> detail_soup \<Rightarrow> pydict \<Rightarrow> pyerror + pydict" where
  "step_fees rt soup prop =
     (case re_search rt FEES_RE (page_text soup) of
        None \<Rightarrow> Inr prop
      | Some fees_match \<Rightarrow>
          (case py_float rt (comma_to_dot (grp fees_match 1)) of
             Inl e \<Rightarrow> Inl e
           | Inr v \<Rightarrow> Inr (AList.update ''agency_fees_percent'' (PFloat v) prop)))"

definition step_price_hors :: "'a pyrt_scheme \<Rightarrow> detail_soup \<Rightarrow> pydict \<Rightarrow> pyerror + pydict" where
  "step_price_hors rt soup prop =
     (case re_search rt PRICE_HORS_RE (page_text soup) of
        None \<Rightarrow> Inr prop
      | Some price_hors_match \<Rightarrow>
          (case parse_price rt (grp price_hors_match 1) of
             Inl e \<Rightarrow> Inl e
           | Inr v \<Rightarrow> Inr (AList.update ''price_without_fees'' (opt_int v) prop)))"

definition step_floor :: "'a pyrt_scheme \<Rightarrow> detail_soup \<Rightarrow> pydict \<Rightarrow> pyerror + pydict" where
  "step_floor rt soup prop =
     (case re_search rt FLOOR_RE (page_text soup) of
        None \<Rightarrow> Inr prop
      | Some floor_match \<Rightarrow>
          if contains (grp floor_match 0) (u ''Rez-de-chauss'' @ [233] @ u ''e'')
          then Inr (AList.update ''floor'' (PStr (u ''0'')) prop)
          else Inr (AList.update ''floor'' (PStr (grp floor_match 1)) prop))"

definition step_exposure :: "'a pyrt_scheme \<Rightarrow> detail_soup \<Rightarrow> pydict \<Rightarrow> pyerror + pydict" where
  "step_exposure rt soup prop =
     (case re_search rt EXPOSURE_RE (page_text soup) of
        None \<Rightarrow> Inr prop
      | Some exposure_match \<Rightarrow>
          Inr (AList.update ''exposure'' (PStr (py_strip (grp exposure_match 1))) prop))"

definition step_heating :: "'a pyrt_scheme \<Rightarrow> detail_soup \<Rightarrow> pydict \<Rightarrow> pyerror + pydict" where
  "step_heating rt soup prop =
     (case re_search rt HEATING_RE (page_text soup) of
        None \<Rightarrow> Inr prop
      | Some heating_match \<Rightarrow>
          Inr (AList.update ''heating_type'' (PStr (py_strip (grp heating_match 1))) prop))"

definition step_dpe_date :: "'a pyrt_scheme \<Rightarrow> detail_soup \<Rightarrow> pydict \<Rightarrow> pyerror + pydict" where
  "step_dpe_date rt soup prop =
     (case re_search rt DPE_DATE_RE (page_text soup) of
        None \<Rightarrow> Inr prop
      | Some dpe_date_match \<Rightarrow>
          Inr (AList.update ''dpe_date'' (PStr (grp dpe_date_match 1)) prop))"

definition step_energy :: "'a pyrt_scheme \<Rightarrow> detail_soup \<Rightarrow> pydict \<Rightarrow> pyerror + pydict" where
  "step_energy rt soup prop =
     (case energy_section_text soup of
        None \<Rightarrow> Inr prop
      | Some section_text \<Rightarrow>
          (case re_search rt RATING_RE section_text of
             None \<Rightarrow> Inr prop
           | Some rating_match \<Rightarrow>
               (case py_int rt (grp rating_match 2) of
                  Inl e \<Rightarrow> Inl e
                | Inr n \<Rightarrow>
                    Inr (AList.update ''energy_consumption'' (PInt n)
                          (AList.update ''energy_rating'' (PStr (grp rating_match 1)) prop)))))"

definition is_dpe_node :: "'a pyrt_scheme \<Rightarrow> ustr \<times> ustr option \<Rightarrow> bool" where
  "is_dpe_node rt node =
     (case snd node of
        None \<Rightarrow> False
      | Some class_str \<Rightarrow> contains (py_lower rt class_str) (u ''dpe''))"

definition step_energy_fallback ::
    "'a pyrt_scheme \<Rightarrow> detail_soup \<Rightarrow> pydict \<Rightarrow> pyerror + pydict" where
  "step_energy_fallback rt soup prop =
     (if \<not> truthy (py_get prop ''energy_rating'') then
        (case find (is_dpe_node rt) (letter_nodes soup) of
           None \<Rightarrow> Inr prop
         | Some node \<Rightarrow> Inr (AList.update ''energy_rating'' (PStr (py_strip (fst node))) prop))
      else Inr prop)"

definition step_ges :: "'a pyrt_scheme \<Rightarrow> detail_soup \<Rightarrow> pydict \<Rightarrow> pyerror + pydict" where
  "step_ges rt soup prop =
     (case re_search rt GES_RE (page_text soup) of
        None \<Rightarrow> Inr prop
      | Some ges_match \<Rightarrow>
          (case py_int rt (grp ges_match 2) of
             Inl e \<Rightarrow> Inl e
           | Inr n \<Rightarrow>
               Inr (AList.update ''ges_emission'' (PInt n)
                     (AList.update ''ges_rating'' (PStr (grp ges_match 1)) prop))))"

definition step_bill :: "'a pyrt_scheme \<Rightarrow> detail_soup \<Rightarrow> pydict \<Rightarrow> pyerror + pydict" where
  "step_bill rt soup prop =
     (case re_search rt BILL_RE (page_text soup) of
        None \<Rightarrow> Inr prop
      | Some bill_match \<Rightarrow>
          (case parse_price rt (grp bill_match 1) of
             Inl e \<Rightarrow> Inl e
           | Inr lo \<Rightarrow>
               (case parse_price rt (grp bill_match 2) of
                  Inl e \<Rightarrow> Inl e
                | Inr hi \<Rightarrow>
                    Inr (AList.update ''energy_bill_max'' (opt_int hi)
                          (AList.update ''energy_bill_min'' (opt_int lo) prop)))))"

definition step_mandate :: "'a pyrt_scheme \<Rightarrow> detail_soup \<Rightarrow> pydict \<Rightarrow> pyerror + pydict" where
  "step_mandate rt soup prop =
     (if contains (py_lower rt (page_text soup)) (u ''exclusivit'' @ [233])
      then Inr (AList.update ''mandate_type'' (PStr (u ''exclusive'')) prop)
      else Inr prop)"

definition step_reference :: "'a pyrt_scheme \<Rightarrow> detail_soup \<Rightarrow> pydict \<Rightarrow> pyerror + pydict" where
  "step_reference rt soup prop =
     (case re_search rt REF_RE (page_text soup) of
        None \<Rightarrow> Inr prop
      | Some ref_match \<Rightarrow> Inr (AList.update ''reference'' (PStr (grp ref_match 1)) prop))"

definition step_published :: "'a pyrt_scheme \<Rightarrow> detail_soup \<Rightarrow> pydict \<Rightarrow> pyerror + pydict" where
  "step_published rt soup prop =
     (case re_search rt PUB_RE (page_text soup) of
        None \<Rightarrow> Inr prop
      | Some pub_match \<Rightarrow> Inr (AList.update ''published_date'' (PStr (grp pub_match 1)) prop))"

definition step_modified :: "'a pyrt_scheme \<Rightarrow> detail_soup \<Rightarrow> pydict \<Rightarrow> pyerror + pydict" where
  "step_modified rt soup prop =
     (case re_search rt MOD_RE (page_text soup) of
        None \<Rightarrow> Inr prop
      | Some mod_match \<Rightarrow> Inr (AList.update ''modified_date'' (PStr (grp mod_match 1)) prop))"

text \<open>\<open>re.search(r"\d{5}", text)\<close>: five decimal digits in a row.\<close>

fun five_digits :: "'a pyrt_scheme \<Rightarrow> nat \<Rightarrow> ustr \<Rightarrow> bool" where
  "five_digits rt run [] = (5 \<le> run)"
| "five_digits rt run (c # cs) =
     (5 \<le> run \<or> (if is_digit rt c then five_digits rt (Suc run) cs else five_digits rt 0 cs))"

definition is_address :: "'a pyrt_scheme \<Rightarrow> ustr \<Rightarrow> bool" where
  "is_address rt block = (five_digits rt 0 block \<and> length block < 100)"

definition step_agency :: "'a pyrt_scheme \<Rightarrow> detail_soup \<Rightarrow> pydict \<Rightarrow> pyerror + pydict" where
  "step_agency rt soup prop =
     (case agency_section soup of
        None \<Rightarrow> Inr prop
      | Some section \<Rightarrow>
          let named = (case fst section of
                         None \<Rightarrow> prop
                       | Some name \<Rightarrow> AList.update ''agency_name'' (PStr name) prop)
          in (case find (is_address rt) (snd section) of
                None \<Rightarrow> Inr named
              | Some block \<Rightarrow> Inr (AList.update ''agency_address'' (PStr block) named)))"

definition step_description ::
    "'a pyrt_scheme \<Rightarrow> detail_soup \<Rightarrow> pydict \<Rightarrow> pyerror + pydict" where
  "step_description rt soup prop =
     (case description_text soup of
        None \<Rightarrow> Inr prop
      | Some d \<Rightarrow> Inr (AList.update ''description'' (PStr (take 2000 d)) prop))"

definition step_tags :: "'a pyrt_scheme \<Rightarrow> detail_soup \<Rightarrow> pydict \<Rightarrow> pyerror + pydict" where
  "step_tags rt soup prop =
     Inr (AList.update ''price_drop'' (PBool (contains (page_text soup) (u ''Baisse de prix'')))
           (AList.update ''is_exclusive''
              (PBool (contains (page_text soup) (u ''Exclusivit'' @ [233])))
              (AList.update ''has_video''
                 (PBool (contains (page_text soup) (u ''Vid'' @ [233] @ u ''o''))) prop)))"

definition step_contract :: "ustr \<Rightarrow> pydict \<Rightarrow> pyerror + pydict" where
  "step_contract url prop =
     (if contains url (u ''/vente/'')
      then Inr (AList.update ''contract_type'' (PStr (u ''buy'')) prop)
      else if contains url (u ''/location/'')
      then Inr (AList.update ''contract_type'' (PStr (u ''rent'')) prop)
      else Inr prop)"

text \<open>Running the blocks one after the other; an exception ends the run.\<close>

fun run_steps :: "('s \<Rightarrow> pyerror + 's) list \<Rightarrow> 's \<Rightarrow> pyerror + 's" where
  "run_steps [] s = Inr s"
| "run_steps (f # fs) s = (case f s of Inl e \<Rightarrow> Inl e | Inr s' \<Rightarrow> run_steps fs s')"

definition detail_steps ::
    "'a pyrt_scheme \<Rightarrow> detail_soup \<Rightarrow> ustr \<Rightarrow> (pydict \<Rightarrow> pyerror + pydict) list" where
  "detail_steps rt soup url =
     [step_title rt soup, step_price rt soup, step_price_per_sqm rt soup, step_fees rt soup,
      step_price_hors rt soup, step_floor rt soup, step_exposure rt soup,
      step_heating rt soup, step_dpe_date rt soup, step_energy rt soup,
      step_energy_fallback rt soup, step_ges rt soup, step_bill rt soup,
      step_mandate rt soup, step_reference rt soup, step_published rt soup,
      step_modified rt soup, step_agency rt soup, step_description rt soup,
      step_tags rt soup, step_contract url]"

definition parse_property_detail ::
    "'a pyrt_scheme \<Rightarrow> detail_soup \<Rightarrow> ustr \<Rightarrow> pyerror + pydict" where
  "parse_property_detail rt soup url =
     run_steps (detail_steps rt soup url)
       [(''url'', PStr url), (''listing_id'', PStr (listing_id_of_url url))]"

section \<open>The final record\<close>

text \<open>
  The fields of the dataclass \<open>Property\<close> in their order, each with its default.
  \<open>date_scraped\<close> defaults to the time of construction.
\<close>

definition PROPERTY_FIELDS :: "(string \<times> pyval) list" where
  "PROPERTY_FIELDS =
     [(''url'', PStr []), (''listing_id'', PStr []), (''title'', PStr []),
      (''property_type'', PStr []), (''contract_type'', PStr []),
      (''price'', PNone), (''price_per_sqm'', PNone), (''price_without_fees'', PNone),
      (''agency_fees_percent'', PNone),
      (''city'', PStr []), (''district'', PStr []), (''postal_code'', PStr []),
      (''full_address'', PStr []),
      (''living_area'', PNone), (''rooms'', PNone), (''bedrooms'', PNone),
      (''floor'', PStr []), (''exposure'', PStr []),
      (''heating_type'', PStr []),
      (''energy_rating'', PStr []), (''energy_consumption'', PNone),
      (''ges_rating'', PStr []), (''ges_emission'', PNone),
      (''energy_bill_min'', PNone), (''energy_bill_max'', PNone),
      (''has_video'', PBool False), (''is_exclusive'', PBool False),
      (''price_drop'', PBool False),
      (''agency_name'', PStr []), (''agency_address'', PStr []),
      (''mandate_type'', PStr []), (''reference'', PStr []),
      (''description'', PStr []),
      (''published_date'', PStr []), (''modified_date'', PStr []),
      (''date_scraped'', PNone)]"

definition is_property_field :: "string \<Rightarrow> bool" where
  "is_property_field k = (k \<in> set (map fst PROPERTY_FIELDS))"

definition field_value :: "ustr \<Rightarrow> pydict \<Rightarrow> string \<times> pyval \<Rightarrow> string \<times> pyval" where
  "field_value now d field =
     (fst field,
      case map_of d (fst field) of
        Some v \<Rightarrow> v
      | None \<Rightarrow> if fst field = ''date_scraped'' then PStr now else snd field)"

text \<open>
  \<open>Property(**prop_dict)\<close>: the generated \<open>__init__\<close> takes the fields as keywords and
  raises \<open>TypeError\<close> for any other keyword. It does not check the values.
\<close>

definition make_property :: "ustr \<Rightarrow> pydict \<Rightarrow> pyerror + pydict" where
  "make_property now prop_dict =
     (if list_all is_property_field (map fst prop_dict)
      then Inr (map (field_value now prop_dict) PROPERTY_FIELDS)
      else Inl TypeError)"

text \<open>
  The last loop of \<open>scrape\<close>: a record whose construction raises is logged and left out.
  \<open>clock n\<close> is the time at which the n-th record of the list is built.
\<close>

fun build_properties :: "(nat \<Rightarrow> ustr) \<Rightarrow> nat \<Rightarrow> pydict list \<Rightarrow> pydict list" where
  "build_properties clock n [] = []"
| "build_properties clock n (prop_dict # rest) =
     (case make_property (clock n) prop_dict of
        Inl e \<Rightarrow> build_properties clock (Suc n) rest
      | Inr p \<Rightarrow> p # build_properties clock (Suc n) rest)"

section \<open>The scrape\<close>

text \<open>
  The site as one scrape meets it:
  \<^item> \<open>fetch\<close>: what \<open>_fetch_page(url)\<close> returns, the text of the response or \<open>None\<close>
    when every attempt failed;
  \<^item> \<open>index_total\<close> and \<open>index_cards\<close>: \<open>parse_total_count(html)\<close> and
    \<open>parse_listings_from_page(html)\<close>;
  \<^item> \<open>soup_of\<close>: \<open>BeautifulSoup(html, "lxml")\<close> as the detail extractor reads it;
  \<^item> \<open>pages_completed\<close> and \<open>details_completed\<close>: the order in which \<open>as_completed\<close>
    hands back the tasks that were submitted;
  \<^item> \<open>clock\<close>: the time when a record is built.
  The requests are collected in the order in which the tasks are submitted.
\<close>

record site =
  fetch :: "pyval \<Rightarrow> ustr option"
  index_total :: "ustr \<Rightarrow> int"
  index_cards :: "ustr \<Rightarrow> pydict list"
  soup_of :: "ustr \<Rightarrow> detail_soup"
  pages_completed :: "int list \<Rightarrow> int list"
  details_completed :: "pyval list \<Rightarrow> pyval list"
  clock :: "nat \<Rightarrow> ustr"

text \<open>\<open>scrape_page\<close>, for the pages after the first: the cards of the page.\<close>

definition scrape_page ::
    "'a pyrt_scheme \<Rightarrow> site \<Rightarrow> ustr \<Rightarrow> ustr \<Rightarrow> ustr \<Rightarrow> int \<Rightarrow> int \<times> pydict list" where
  "scrape_page rt w location contract_type property_type page =
     (case fetch w (PStr (build_search_url rt location contract_type property_type page)) of
        None \<Rightarrow> (0, [])
      | Some html \<Rightarrow>
          if html = [] then (0, [])
          else (if page = 1 then index_total w html else 0, index_cards w html))"

text \<open>
  \<open>scrape_detail\<close>: \<open>None\<close> when the fetch fails, else what \<open>parse_property_detail\<close>
  returns or raises. A url that is not a string makes \<open>url.rstrip\<close> raise.
\<close>

definition scrape_detail :: "'a pyrt_scheme \<Rightarrow> site \<Rightarrow> pyval \<Rightarrow> pyerror + pydict option" where
  "scrape_detail rt w url =
     (case fetch w url of
        None \<Rightarrow> Inr None
      | Some html \<Rightarrow>
          if html = [] then Inr None
          else (case url of
                  PStr s \<Rightarrow>
                    (case parse_property_detail rt (soup_of w html) s of
                       Inl e \<Rightarrow> Inl e
                     | Inr detail \<Rightarrow> Inr (Some detail))
                | _ \<Rightarrow> Inl AttributeError))"

text \<open>
  The body of the loop over the completed detail tasks: a detail record that was
  fetched and parsed is merged into the record stored under its url; a failed fetch or
  an exception leaves the mapping as it is.
\<close>

definition enrich_one ::
    "'a pyrt_scheme \<Rightarrow> site \<Rightarrow> pyval \<Rightarrow> (pyval \<times> pydict) list \<Rightarrow> (pyval \<times> pydict) list" where
  "enrich_one rt w url prop_by_url =
     (case scrape_detail rt w url of
        Inl e \<Rightarrow> prop_by_url
      | Inr None \<Rightarrow> prop_by_url
      | Inr (Some detail) \<Rightarrow>
          if detail \<noteq> [] then
            (case map_of prop_by_url (py_key url) of
               None \<Rightarrow> prop_by_url
             | Some p \<Rightarrow> AList.update (py_key url) (merge_detail p detail) prop_by_url)
          else prop_by_url)"

definition detail_urls :: "pydict list \<Rightarrow> pyval list" where
  "detail_urls properties = filter truthy (map (\<lambda>p. py_get p ''url'') properties)"

text \<open>\<open>_enrich_with_details\<close>: the enriched records and the detail urls it requested.\<close>

definition enrich_with_details ::
    "'a pyrt_scheme \<Rightarrow> site \<Rightarrow> pydict list \<Rightarrow> pydict list \<times> pyval list" where
  "enrich_with_details rt w properties =
     (let urls = detail_urls properties in
      if urls = [] then (properties, [])
      else
        let prop_by_url =
              fold (\<lambda>p acc. AList.update (py_key (py_get p ''url'')) p acc) properties []
        in (map snd (fold (enrich_one rt w) (details_completed w urls) prop_by_url), urls))"

text \<open>\<open>xs[:n]\<close>, and \<open>if limit: unique_properties = unique_properties[:limit]\<close>.\<close>

definition slice_to :: "'a list \<Rightarrow> int \<Rightarrow> 'a list" where
  "slice_to xs n = (if 0 \<le> n then take (nat n) xs else take (length xs - nat (- n)) xs)"

definition apply_limit :: "int option \<Rightarrow> pydict list \<Rightarrow> pydict list" where
  "apply_limit limit unique_properties =
     (case limit of
        None \<Rightarrow> unique_properties
      | Some n \<Rightarrow> if n \<noteq> 0 then slice_to unique_properties n else unique_properties)"

definition pages_to_scrape :: "int \<Rightarrow> int option \<Rightarrow> int" where
  "pages_to_scrape total_pages max_pages =
     (case max_pages of
        None \<Rightarrow> total_pages
      | Some m \<Rightarrow> if m \<noteq> 0 then min total_pages m else total_pages)"

text \<open>
  \<open>scrape\<close>: the records it returns and the urls it requested, the first page, then the
  remaining pages, then the detail pages.
\<close>

definition scrape ::
    "'a pyrt_scheme \<Rightarrow> site \<Rightarrow> ustr \<Rightarrow> ustr \<Rightarrow> ustr \<Rightarrow> int option \<Rightarrow> int option \<Rightarrow> bool
       \<Rightarrow> pydict list \<times> pyval list" where
  "scrape rt w location contract_type property_type max_pages limit fetch_details =
     (let url = PStr (build_search_url rt location contract_type property_type 1) in
      case fetch w url of
        None \<Rightarrow> ([], [url])
      | Some html \<Rightarrow>
          if html = [] then ([], [url])
          else
            let total_count = index_total w html;
                first_page_properties = index_cards w html
            in if first_page_properties = [] then ([], [url])
               else
                 let n_pages = pages_to_scrape
                       (estimate_total_pages total_count (length first_page_properties))
                       max_pages;
                     pages = (if n_pages > 1 then [2..n_pages] else []);
                     page_urls = map (\<lambda>page. PStr (build_search_url rt location contract_type
                                                    property_type page)) pages;
                     all_properties = first_page_properties @
                       concat (map (\<lambda>page. snd (scrape_page rt w location contract_type
                                                  property_type page))
                                 (pages_completed w pages));
                     unique_properties = apply_limit limit (dedupe all_properties);
                     enriched = (if fetch_details
                                 then enrich_with_details rt w unique_properties
                                 else (unique_properties, []))
                 in (build_properties (clock w) 0 (fst enriched),
                     [url] @ page_urls @ snd enriched))"

text \<open>
  The pools of \<open>scrape\<close> and \<open>_enrich_with_details\<close> are both
  \<open>ThreadPoolExecutor(max_workers=self.max_workers)\<close>.
\<close>

definition page_pool_size :: "scraper \<Rightarrow> int" where
  "page_pool_size self = max_workers self"

definition detail_pool_size :: "scraper \<Rightarrow> int" where
  "detail_pool_size self = max_workers self"

section \<open>The command line\<close>

text \<open>
  The arguments of \<open>main\<close> that reach the scraper; \<open>None\<close> is an option left out. \<open>main\<close>
  passes \<open>args.max_workers\<close>, whose default is \<open>DEFAULT_MAX_WORKERS\<close>, to the
  constructor. The result is the exit code and the urls requested.
\<close>

record cli_args =
  arg_location :: ustr
  arg_contract :: ustr
  arg_property :: ustr
  arg_limit :: "int option"
  arg_max_pages :: "int option"
  arg_max_workers :: "int option"
  arg_no_details :: bool
  arg_api_key :: "ustr option"

definition cli_max_workers :: "cli_args \<Rightarrow> int" where
  "cli_max_workers args =
     (case arg_max_workers args of None \<Rightarrow> DEFAULT_MAX_WORKERS | Some n \<Rightarrow> n)"

definition main :: "'a pyrt_scheme \<Rightarrow> site \<Rightarrow> ustr \<Rightarrow> cli_args \<Rightarrow> int \<times> pyval list" where
  "main rt w env_key args =
     (case scraper_init env_key (arg_api_key args) (Some (cli_max_workers args)) None of
        Inl e \<Rightarrow> (1, [])
      | Inr self \<Rightarrow>
          let result = scrape rt w (arg_location args) (arg_contract args) (arg_property args)
                         (arg_max_pages args) (arg_limit args) (\<not> arg_no_details args)
          in (if fst result \<noteq> [] then 0 else 1, snd result))"

section \<open>Pages and sites for the examples\<close>

definition empty_soup :: detail_soup where
  "empty_soup =
     \<lparr> h1_text = None, page_text = [], energy_section_text = None, letter_nodes = [],
       agency_section = None, description_text = None \<rparr>"

text \<open>A site where every request fails.\<close>

definition offline_site :: site where
  "offline_site =
     \<lparr> fetch = (\<lambda>url. None), index_total = (\<lambda>html. 0), index_cards = (\<lambda>html. []),
       soup_of = (\<lambda>html. empty_soup), pages_completed = (\<lambda>pages. pages),
       details_completed = (\<lambda>urls. urls), clock = (\<lambda>n. u ''2024-01-01T00:00:00'') \<rparr>"

text \<open>
  A detail page whose only text is "Honoraires : 1.2.3 %". Of the expressions of
  \<open>parse_property_detail\<close> only \<open>FEES_RE\<close> matches it, with group 1 = "1.2.3".
\<close>

definition fees_page_text :: ustr where
  "fees_page_text = u ''Honoraires : 1.2.3 %''"

definition fees_soup :: detail_soup where
  "fees_soup = empty_soup \<lparr> page_text := fees_page_text \<rparr>"

definition fees_runtime :: pyrt where
  "fees_runtime =
     plain_runtime \<lparr> re_search :=
       (\<lambda>p s. if p = FEES_RE \<and> s = fees_page_text
              then Some [fees_page_text, u ''1.2.3''] else None) \<rparr>"




definition detail_url_a :: ustr where
  "detail_url_a = u ''https://www.bienici.com/annonce/vente/paris/appartement/3pieces/a1''"

definition detail_url_b :: ustr where
  "detail_url_b = u ''https://www.bienici.com/annonce/vente/paris/appartement/2pieces/b2''"

definition listing_a :: pydict where
  "listing_a =
     [(''url'', PStr detail_url_a), (''listing_id'', PStr (u ''a1'')), (''price'', PInt 300000)]"

definition listing_b :: pydict where
  "listing_b =
     [(''url'', PStr detail_url_b), (''listing_id'', PStr (u ''b2'')), (''price'', PInt 250000)]"

text \<open>
  A site whose first search page for Paris holds the two listings above and announces a
  total of 2; its detail pages cannot be fetched.
\<close>

definition two_listing_site :: site where
  "two_listing_site =
     offline_site
       \<lparr> fetch := (\<lambda>url. if url = PStr (u ''https://www.bienici.com/recherche/achat/paris-75000'')
                          then Some (u ''<html>2 biens</html>'') else None),
         index_total := (\<lambda>html. 2),
         index_cards := (\<lambda>html. [listing_a, listing_b]) \<rparr>"







section \<open>Properties of the merge\<close>







section \<open>Properties of the total-page estimate\<close>

lemma ceil_div:
  assumes l: "(0::int) < l"
  shows "(t + l - 1) div l = \<lceil>real_of_int t / real_of_int l\<rceil>"
proof -
  define q where "q = (t + l - 1) div l"
  have m: "0 \<le> (t + l - 1) mod l" "(t + l - 1) mod l < l"
    using l by simp_all
  have e: "q * l + (t + l - 1) mod l = t + l - 1"
    unfolding q_def by simp
  have a: "(q - 1) * l < t" and b: "t \<le> q * l"
    using m e by (simp_all add: algebra_simps)
  from a have "real_of_int ((q - 1) * l) < real_of_int t"
    by (simp only: of_int_less_iff)
  then have "real_of_int q - 1 < real_of_int t / real_of_int l"
    using l by (simp add: pos_less_divide_eq)
  moreover from b have "real_of_int t \<le> real_of_int (q * l)"
    by (simp only: of_int_le_iff)
  then have "real_of_int t / real_of_int l \<le> real_of_int q"
    using l by (simp add: pos_divide_le_eq)
  ultimately have "\<lceil>real_of_int t / real_of_int l\<rceil> = q"
    by (rule ceiling_unique)
  then show ?thesis by (simp add: q_def)
qed

text \<open>
  Claim C6. The estimate is the ceiling of the total count over the larger of the
  first page's card count and 24; this holds for every total count and card count, in
  particular for a count of at least 0 and at least one card. For a total of 100 it is
  5 pages with 24 cards on the first page and with 10.
\<close>

theorem estimate_total_pages_ceiling:
  "estimate_total_pages total_count n_cards =
     \<lceil>real_of_int total_count / real_of_int (max (int n_cards) 24)\<rceil>
   \<and> estimate_total_pages 100 24 = 5
   \<and> estimate_total_pages 100 10 = 5"
proof -
  have "(0::int) < max (int n_cards) 24" by simp
  then have "estimate_total_pages total_count n_cards =
     \<lceil>real_of_int total_count / real_of_int (max (int n_cards) 24)\<rceil>"
    unfolding estimate_total_pages_def listings_per_page_def by (rule ceil_div)
  moreover have "estimate_total_pages 100 24 = 5" "estimate_total_pages 100 10 = 5"
    by (simp_all add: estimate_total_pages_def listings_per_page_def)
  ultimately show ?thesis by simp
qed

section \<open>Properties of the deduplication\<close>

lemma truthy_py_key: "py_key a = py_key b \<Longrightarrow> truthy a = truthy b"
  by (cases a rule: py_key.cases; cases b rule: py_key.cases) (auto split: if_splits)


text \<open>
  The loop, started with any set of seen ids: it appends the records at the positions
  whose id is truthy, not yet seen, and different from the id of every earlier record.
\<close>

lemma dedupe_loop_nths:
  "dedupe_loop seen acc ps =
     acc @ nths ps {i. truthy (py_get (ps ! i) ''listing_id'') \<and>
                       py_key (py_get (ps ! i) ''listing_id'') \<notin> seen \<and>
                       (\<forall>j<i. py_key (py_get (ps ! j) ''listing_id'') \<noteq>
                               py_key (py_get (ps ! i) ''listing_id''))}"
proof (induction ps arbitrary: seen acc)
  case Nil
  then show ?case by simp
next
  case (Cons p ps)
  let ?id = "\<lambda>q. py_get q ''listing_id''"
  show ?case
  proof (cases "truthy (?id p) \<and> py_key (?id p) \<notin> seen")
    case True
    have "{j. truthy (?id (ps ! j)) \<and> py_key (?id (ps ! j)) \<notin> insert (py_key (?id p)) seen \<and>
              (\<forall>k<j. py_key (?id (ps ! k)) \<noteq> py_key (?id (ps ! j)))}
        = {j. truthy (?id ((p # ps) ! Suc j)) \<and> py_key (?id ((p # ps) ! Suc j)) \<notin> seen \<and>
              (\<forall>k<Suc j. py_key (?id ((p # ps) ! k)) \<noteq> py_key (?id ((p # ps) ! Suc j)))}"
      by (auto simp: All_less_Suc2)
    with True show ?thesis
      by (simp add: Cons.IH nths_Cons)
  next
    case False
    have "\<And>j. truthy (?id (ps ! j)) \<Longrightarrow> py_key (?id (ps ! j)) \<notin> seen \<Longrightarrow>
              py_key (?id p) \<noteq> py_key (?id (ps ! j))"
      using False truthy_py_key by metis
    then have "{j. truthy (?id (ps ! j)) \<and> py_key (?id (ps ! j)) \<notin> seen \<and>
              (\<forall>k<j. py_key (?id (ps ! k)) \<noteq> py_key (?id (ps ! j)))}
        = {j. truthy (?id ((p # ps) ! Suc j)) \<and> py_key (?id ((p # ps) ! Suc j)) \<notin> seen \<and>
              (\<forall>k<Suc j. py_key (?id ((p # ps) ! k)) \<noteq> py_key (?id ((p # ps) ! Suc j)))}"
      by (auto simp: All_less_Suc2)
    with False show ?thesis
      by (auto simp add: Cons.IH nths_Cons)
  qed
qed

text \<open>
  Claim C3. Deduplication returns exactly the records, in their order, whose
  \<open>listing_id\<close> is present and non-empty (truthy) and is the id of no earlier record:
  \<open>nths ps A\<close> is the subsequence of \<open>ps\<close> at the positions in \<open>A\<close>. A record without
  a \<open>listing_id\<close> has the id \<open>None\<close>, which is not truthy, and is dropped. Records with
  the ids A, B, A, C give the first, second and fourth record.
\<close>

theorem dedupe_first_seen:
  "dedupe ps =
     nths ps {i. truthy (py_get (ps ! i) ''listing_id'') \<and>
                 (\<forall>j<i. py_key (py_get (ps ! j) ''listing_id'') \<noteq>
                         py_key (py_get (ps ! i) ''listing_id''))}
   \<and> (a \<noteq> [] \<and> b \<noteq> [] \<and> c \<noteq> [] \<and> a \<noteq> b \<and> a \<noteq> c \<and> b \<noteq> c \<and>
      py_get r1 ''listing_id'' = PStr a \<and> py_get r2 ''listing_id'' = PStr b \<and>
      py_get r3 ''listing_id'' = PStr a \<and> py_get r4 ''listing_id'' = PStr c
      \<longrightarrow> dedupe [r1, r2, r3, r4] = [r1, r2, r4])"
proof (intro conjI impI)
  show "dedupe ps =
     nths ps {i. truthy (py_get (ps ! i) ''listing_id'') \<and>
                 (\<forall>j<i. py_key (py_get (ps ! j) ''listing_id'') \<noteq>
                         py_key (py_get (ps ! i) ''listing_id''))}"
    by (simp add: dedupe_def dedupe_loop_nths)
next
  assume "a \<noteq> [] \<and> b \<noteq> [] \<and> c \<noteq> [] \<and> a \<noteq> b \<and> a \<noteq> c \<and> b \<noteq> c \<and>
      py_get r1 ''listing_id'' = PStr a \<and> py_get r2 ''listing_id'' = PStr b \<and>
      py_get r3 ''listing_id'' = PStr a \<and> py_get r4 ''listing_id'' = PStr c"
  then show "dedupe [r1, r2, r3, r4] = [r1, r2, r4]"
    by (auto simp add: dedupe_def Let_def)
qed

text \<open>
  Six records: ids A, B, A, C, then one without an id and one with the empty id. The
  subsequence the theorem describes is the first, second and fourth.
\<close>

theorem dedupe_first_seen_witness:
  "dedupe [[(''listing_id'', PStr (u ''A'')), (''price'', PInt 1)],
           [(''listing_id'', PStr (u ''B'')), (''price'', PInt 2)],
           [(''listing_id'', PStr (u ''A'')), (''price'', PInt 3)],
           [(''listing_id'', PStr (u ''C'')), (''price'', PInt 4)],
           [(''price'', PInt 5)],
           [(''listing_id'', PStr []), (''price'', PInt 6)]]
    = [[(''listing_id'', PStr (u ''A'')), (''price'', PInt 1)],
       [(''listing_id'', PStr (u ''B'')), (''price'', PInt 2)],
       [(''listing_id'', PStr (u ''C'')), (''price'', PInt 4)]]"
  apply (subst conjunct1 [OF dedupe_first_seen])
  apply (simp add: nths_def upt_rec py_get_def u_def All_less_Suc eval_nat_numeral)
  done

section \<open>Properties of \<open>parse_price\<close>\<close>

lemma denoted_integer_Cons:
  "denoted_integer (d # ds) = int d * 10 ^ length ds + denoted_integer ds"
  by (simp add: denoted_integer_def sum.lessThan_Suc_shift del: sum.lessThan_Suc)

lemma int_of_digits_ascii:
  "list_all (\<lambda>c. 48 \<le> c \<and> c \<le> 57) cs \<Longrightarrow>
   int_of_digits rt acc cs =
     Some (acc * 10 ^ length cs + denoted_integer (map (\<lambda>c. c - 48) cs))"
proof (induction cs arbitrary: acc)
  case Nil
  then show ?case by (simp add: denoted_integer_def)
next
  case (Cons c cs)
  then show ?case
    by (simp add: digit_value_def denoted_integer_Cons algebra_simps)
qed

lemma int_of_digits_Some:
  "list_all (is_digit rt) cs \<Longrightarrow> \<exists>n. int_of_digits rt acc cs = Some n"
  by (induction cs arbitrary: acc) (auto simp: is_digit_def)

lemma parse_price_returns: "\<exists>r. parse_price rt s = Inr r"
proof -
  have "list_all (is_digit rt) (filter (is_digit rt) s)"
    by (simp add: list_all_iff)
  then obtain n where "int_of_digits rt 0 (filter (is_digit rt) s) = Some n"
    using int_of_digits_Some by blast
  then show ?thesis
    by (simp add: parse_price_def py_int_def Let_def)
qed

lemma filter_ascii_digits:
  assumes "list_all (\<lambda>c. (48 \<le> c \<and> c \<le> 57) \<or> c = 32 \<or> c = 160) s"
  shows "filter (is_digit rt) s = filter (\<lambda>c. 48 \<le> c \<and> c \<le> 57) s"
  using assms
  by (induction s) (auto simp: is_digit_def digit_value_def)

text \<open>
  Claim C8, as amended. On a string of ASCII digits (48 to 57), spaces (32) and
  non-breaking spaces (160) that has a digit, \<open>parse_price\<close> returns the integer its
  digits denote, taken in order, as long as the digits are no more than the interpreter
  converts (4300 unless it is set up otherwise; 0 stands for no limit). With more digits
  than that, \<open>int\<close> raises \<open>ValueError\<close>, the \<open>except\<close> clause takes it, and the
  result is \<open>None\<close>. On a string with no digit, the empty one included, the result is
  \<open>None\<close>. On every string \<open>parse_price\<close> returns and does not raise.
\<close>

theorem parse_price_within_limit:
  "(list_all (\<lambda>c. (48 \<le> c \<and> c \<le> 57) \<or> c = 32 \<or> c = 160) s \<and>
    list_ex (\<lambda>c. 48 \<le> c \<and> c \<le> 57) s \<and>
    (int_max_str_digits rt = 0 \<or>
     length (filter (\<lambda>c. 48 \<le> c \<and> c \<le> 57) s) \<le> int_max_str_digits rt)
      \<longrightarrow> parse_price rt s =
            Inr (Some (denoted_integer
                   (map (\<lambda>c. c - 48) (filter (\<lambda>c. 48 \<le> c \<and> c \<le> 57) s)))))
   \<and> (list_all (\<lambda>c. (48 \<le> c \<and> c \<le> 57) \<or> c = 32 \<or> c = 160) s \<and>
      0 < int_max_str_digits rt \<and>
      int_max_str_digits rt < length (filter (\<lambda>c. 48 \<le> c \<and> c \<le> 57) s)
      \<longrightarrow> parse_price rt s = Inr None)
   \<and> (\<not> list_ex (is_digit rt) s \<longrightarrow> parse_price rt s = Inr None)
   \<and> (\<exists>r. parse_price rt s = Inr r)"
proof (intro conjI impI)
  let ?ds = "filter (\<lambda>c. 48 \<le> c \<and> c \<le> 57) s"
  have digits: "list_all (\<lambda>c. 48 \<le> c \<and> c \<le> 57) ?ds"
    by (simp add: list_all_iff)
  have conv: "int_of_digits rt 0 ?ds = Some (denoted_integer (map (\<lambda>c. c - 48) ?ds))"
    using digits by (simp add: int_of_digits_ascii)
  {
    assume a: "list_all (\<lambda>c. (48 \<le> c \<and> c \<le> 57) \<or> c = 32 \<or> c = 160) s \<and>
      list_ex (\<lambda>c. 48 \<le> c \<and> c \<le> 57) s \<and>
      (int_max_str_digits rt = 0 \<or> length ?ds \<le> int_max_str_digits rt)"
    then have f: "filter (is_digit rt) s = ?ds"
      by (simp add: filter_ascii_digits)
    from a have ne: "?ds \<noteq> []" "s \<noteq> []"
      by (auto simp: list_ex_iff filter_empty_conv)
    from a have "\<not> exceeds_digit_limit rt ?ds"
      by (auto simp: exceeds_digit_limit_def)
    then show "parse_price rt s = Inr (Some (denoted_integer (map (\<lambda>c. c - 48) ?ds)))"
      using ne conv by (simp add: parse_price_def f py_int_def)
  }
  {
    assume a: "list_all (\<lambda>c. (48 \<le> c \<and> c \<le> 57) \<or> c = 32 \<or> c = 160) s \<and>
      0 < int_max_str_digits rt \<and> int_max_str_digits rt < length ?ds"
    then have f: "filter (is_digit rt) s = ?ds"
      by (simp add: filter_ascii_digits)
    from a have ne: "?ds \<noteq> []" "s \<noteq> []"
      by auto
    from a have "exceeds_digit_limit rt ?ds"
      by (simp add: exceeds_digit_limit_def)
    then show "parse_price rt s = Inr None"
      using ne conv by (simp add: parse_price_def f py_int_def)
  }
  {
    assume "\<not> list_ex (is_digit rt) s"
    then have "filter (is_digit rt) s = []"
      by (simp add: list_ex_iff filter_empty_conv)
    then show "parse_price rt s = Inr None"
      by (simp add: parse_price_def)
  }
  show "\<exists>r. parse_price rt s = Inr r"
    by (rule parse_price_returns)
qed

text \<open>
  "430 000", a non-breaking space and "5"; 4301 times the digit 1; the empty string; a
  string of letters.
\<close>

theorem parse_price_within_limit_witness:
  "parse_price plain_runtime (u ''430 000'' @ [160] @ u ''5'') = Inr (Some 4300005)
   \<and> parse_price plain_runtime (replicate 4301 49) = Inr None
   \<and> parse_price plain_runtime [] = Inr None
   \<and> parse_price plain_runtime (u ''prix'') = Inr None"
proof -
  have "parse_price plain_runtime (u ''430 000'' @ [160] @ u ''5'') = Inr (Some 4300005)"
    using parse_price_within_limit [of "u ''430 000'' @ [160] @ u ''5''" plain_runtime]
    by (simp add: u_def denoted_integer_def plain_runtime_def lessThan_Suc eval_nat_numeral)
  moreover have long: "4300 < n \<Longrightarrow> parse_price plain_runtime (replicate n 49) = Inr None"
    for n
    using parse_price_within_limit [of "replicate n 49" plain_runtime]
    by (simp add: plain_runtime_def list_all_iff)
  have "parse_price plain_runtime (replicate 4301 49) = Inr None"
    by (rule long) simp
  moreover have "parse_price plain_runtime [] = Inr None"
    using parse_price_within_limit [of "[]" plain_runtime] by simp
  moreover have "parse_price plain_runtime (u ''prix'') = Inr None"
    using parse_price_within_limit [of "u ''prix''" plain_runtime]
    by (simp add: u_def is_digit_def digit_value_def)
  ultimately show ?thesis by simp
qed

lemma parse_price_beyond_limit:
  assumes "0 < int_max_str_digits rt" and "int_max_str_digits rt < n"
  shows "parse_price rt (replicate n 49) = Inr None"
proof -
  have f: "filter (is_digit rt) (replicate n 49) = replicate n 49"
    by (simp add: is_digit_def digit_value_def)
  have "list_all (\<lambda>c. 48 \<le> c \<and> c \<le> 57) (replicate n (49::nat))"
    by (simp add: list_all_iff)
  then have c: "int_of_digits rt 0 (replicate n 49) \<noteq> None"
    by (simp add: int_of_digits_ascii)
  have e: "exceeds_digit_limit rt (replicate n 49)"
    using assms by (simp add: exceeds_digit_limit_def)
  from assms have r: "replicate n (49::nat) \<noteq> []"
    by auto
  show ?thesis
    using c e r by (auto simp add: parse_price_def f py_int_def Let_def)
qed

lemma replicate_digits:
  "list_all (\<lambda>c. (48 \<le> c \<and> c \<le> 57) \<or> c = 32 \<or> c = 160) (replicate n (49::nat))"
  "0 < n \<Longrightarrow> list_ex (\<lambda>c. 48 \<le> c \<and> c \<le> 57) (replicate n (49::nat))"
  by (simp_all add: list_all_iff list_ex_iff)

text \<open>
  The claim as it was stated fails on 4301 times the digit 1 under the interpreter's own
  limit: the string is made of ASCII digits and the result is \<open>None\<close>, not an integer.
\<close>

theorem parse_price_long_counterexample:
  "list_all (\<lambda>c. (48 \<le> c \<and> c \<le> 57) \<or> c = 32 \<or> c = 160) (replicate 4301 (49::nat))
   \<and> list_ex (\<lambda>c. 48 \<le> c \<and> c \<le> 57) (replicate 4301 (49::nat))
   \<and> parse_price plain_runtime (replicate 4301 49) = Inr None"
proof (intro conjI)
  show "list_all (\<lambda>c. (48 \<le> c \<and> c \<le> 57) \<or> c = 32 \<or> c = 160) (replicate 4301 (49::nat))"
    by (rule replicate_digits(1))
  show "list_ex (\<lambda>c. 48 \<le> c \<and> c \<le> 57) (replicate 4301 (49::nat))"
    by (rule replicate_digits(2)) simp
  show "parse_price plain_runtime (replicate 4301 49) = Inr None"
    by (rule parse_price_beyond_limit) (simp_all add: plain_runtime_def)
qed

section \<open>Properties of the search URL\<close>

lemma py_lower_buy: "py_lower rt (u ''buy'') = u ''buy''"
  by (simp add: py_lower_def u_def ascii_lower_def)

lemma contract_default:
  "py_lower rt contract_type \<notin> set (map fst CONTRACT_TYPES) \<Longrightarrow>
   get_default CONTRACT_TYPES (py_lower rt contract_type) (u ''achat'') = u ''achat''"
  by (simp add: get_default_def map_of_eq_None_iff [THEN iffD2])

lemma contract_buy:
  "get_default CONTRACT_TYPES (py_lower rt (u ''buy'')) (u ''achat'') = u ''achat''"
  by (simp add: py_lower_buy) (simp add: get_default_def CONTRACT_TYPES_def u_def)

lemma location_default:
  "py_lower rt location \<notin> set (map fst LOCATIONS) \<Longrightarrow>
   get_default LOCATIONS (py_lower rt location) location = location"
  by (simp add: get_default_def map_of_eq_None_iff [THEN iffD2])

text \<open>
  Claim C10. A contract type whose lowercase form is not a key of \<open>CONTRACT_TYPES\<close>
  gives the segment "achat" and the very URL that "buy" gives; the function has no
  error to return, so nothing is rejected. A location whose lowercase form is not a key
  of \<open>LOCATIONS\<close> is itself the location segment: the URL is the search base, the
  contract segment, then the location as it was passed.
\<close>

theorem build_search_url_unrecognized:
  "(py_lower rt contract_type \<notin> set (map fst CONTRACT_TYPES) \<longrightarrow>
      build_search_url rt location contract_type property_type page =
        build_search_url rt location (u ''buy'') property_type page
      \<and> url_parts rt location contract_type property_type ! 1 = u ''achat'')
   \<and> (py_lower rt location \<notin> set (map fst LOCATIONS) \<longrightarrow>
      url_parts rt location contract_type property_type ! 2 = location
      \<and> (\<exists>rest. build_search_url rt location contract_type property_type page =
            SEARCH_URL @ u ''/'' @
            get_default CONTRACT_TYPES (py_lower rt contract_type) (u ''achat'') @ u ''/'' @
            location @ rest))"
proof (intro conjI impI)
  assume a: "py_lower rt contract_type \<notin> set (map fst CONTRACT_TYPES)"
  show "build_search_url rt location contract_type property_type page =
        build_search_url rt location (u ''buy'') property_type page"
    by (simp add: build_search_url_def url_parts_def contract_default [OF a] contract_buy)
  show "url_parts rt location contract_type property_type ! 1 = u ''achat''"
    by (simp add: url_parts_def contract_default [OF a] Let_def)
next
  assume a: "py_lower rt location \<notin> set (map fst LOCATIONS)"
  show "url_parts rt location contract_type property_type ! 2 = location"
    by (simp add: url_parts_def location_default [OF a] Let_def)
  show "\<exists>rest. build_search_url rt location contract_type property_type page =
            SEARCH_URL @ u ''/'' @
            get_default CONTRACT_TYPES (py_lower rt contract_type) (u ''achat'') @ u ''/'' @
            location @ rest"
    by (simp add: build_search_url_def url_parts_def location_default [OF a] Let_def)
qed

text \<open>The contract type "Lease" and the location "Versailles-78000", both unknown.\<close>

theorem build_search_url_unrecognized_witness:
  "build_search_url plain_runtime (u ''Versailles-78000'') (u ''Lease'') (u ''all'') 1
     = u ''https://www.bienici.com/recherche/achat/Versailles-78000''
   \<and> build_search_url plain_runtime (u ''Versailles-78000'') (u ''buy'') (u ''all'') 1
     = u ''https://www.bienici.com/recherche/achat/Versailles-78000''"
  using build_search_url_unrecognized
    [of plain_runtime "u ''Lease''" "u ''Versailles-78000''" "u ''all''" 1]
  by (simp add: build_search_url_def url_parts_def u_def py_lower_def get_default_def
      LOCATIONS_def CONTRACT_TYPES_def PROPERTY_TYPES_def SEARCH_URL_def ascii_lower_def)

section \<open>Properties of the constructor\<close>

text \<open>
  Claim C9. With no override (none, or the empty string) and no key in the environment
  the constructor raises \<open>ValueError\<close>, and \<open>main\<close> then ends with exit code 1 having
  requested nothing. With a non-empty override the construction succeeds and the key is
  the override, whatever the environment holds; with no override and a key in the
  environment it succeeds with that key.
\<close>

theorem scraper_init_api_key:
  "((api_key_arg = None \<or> api_key_arg = Some []) \<and> env_key = [] \<longrightarrow>
      scraper_init env_key api_key_arg workers tmo = Inl ValueError
      \<and> (arg_api_key args = api_key_arg \<longrightarrow> main rt w env_key args = (1, [])))
   \<and> (k \<noteq> [] \<longrightarrow>
      (\<exists>self. scraper_init env_key (Some k) workers tmo = Inr self \<and> api_key self = k))
   \<and> ((api_key_arg = None \<or> api_key_arg = Some []) \<and> env_key \<noteq> [] \<longrightarrow>
      (\<exists>self. scraper_init env_key api_key_arg workers tmo = Inr self \<and>
              api_key self = env_key))"
  by (auto simp: scraper_init_def main_def)

theorem scraper_init_api_key_witness:
  "scraper_init [] None None None = Inl ValueError
   \<and> main plain_runtime offline_site []
        \<lparr> arg_location = u ''paris'', arg_contract = u ''buy'',
          arg_property = u ''all'', arg_limit = None, arg_max_pages = None,
          arg_max_workers = None, arg_no_details = False, arg_api_key = None \<rparr> = (1, [])
   \<and> (\<exists>self. scraper_init (u ''from-env'') (Some (u ''override'')) None None = Inr self \<and>
         api_key self = u ''override'')
   \<and> (\<exists>self. scraper_init (u ''from-env'') None None None = Inr self \<and>
         api_key self = u ''from-env'')"
  using scraper_init_api_key
    [of None "[]" None None "\<lparr> arg_location = u ''paris'', arg_contract = u ''buy'',
        arg_property = u ''all'', arg_limit = None, arg_max_pages = None,
        arg_max_workers = None, arg_no_details = False, arg_api_key = None \<rparr>"
        plain_runtime offline_site "u ''override''"]
    scraper_init_api_key [of None "u ''from-env''" None None _ _ _ "u ''override''"]
  by (simp add: u_def)

text \<open>
  Claim C7. A scraper built with a key and no worker count has pools of size 5, the
  default written in the constructor's signature, while \<open>DEFAULT_MAX_WORKERS\<close> is 10.
\<close>

theorem constructor_default_workers:
  "(case scraper_init (u ''key'') None None None of
      Inl e \<Rightarrow> False
    | Inr self \<Rightarrow> page_pool_size self = 5 \<and> detail_pool_size self = 5)
   \<and> DEFAULT_MAX_WORKERS = 10"
  by (simp add: scraper_init_def page_pool_size_def detail_pool_size_def
      DEFAULT_MAX_WORKERS_def u_def)

text \<open>Through \<open>main\<close> the worker count that reaches the constructor is 10 by default.\<close>

lemma cli_default_workers:
  "arg_max_workers args = None \<Longrightarrow> cli_max_workers args = 10"
  by (simp add: cli_max_workers_def DEFAULT_MAX_WORKERS_def)

section \<open>Properties of the detail-page extractor\<close>





text \<open>
  Claim C2. On the page whose text is "Honoraires : 1.2.3 %" the extractor raises
  \<open>ValueError\<close>: \<open>float("1.2.3")\<close> is not guarded.
\<close>

theorem parse_property_detail_fees_raises:
  "parse_property_detail fees_runtime fees_soup detail_url_a = Inl ValueError"
  by (simp add: parse_property_detail_def detail_steps_def fees_runtime_def fees_soup_def
      empty_soup_def plain_runtime_def fees_page_text_def u_def
      step_title_def step_price_def step_price_per_sqm_def step_fees_def
      grp_def py_float_def comma_to_dot_def digit_value_def)










section \<open>Properties of the enrichment\<close>





















section \<open>The example site, evaluated\<close>

lemma search_url_paris:
  "build_search_url plain_runtime (u ''paris'') (u ''buy'') (u ''all'') 1 =
     u ''https://www.bienici.com/recherche/achat/paris-75000''"
  by (simp add: build_search_url_def url_parts_def u_def py_lower_def get_default_def
      LOCATIONS_def CONTRACT_TYPES_def PROPERTY_TYPES_def SEARCH_URL_def ascii_lower_def
      plain_runtime_def)

lemma dedupe_two_listings: "dedupe [listing_a, listing_b] = [listing_a, listing_b]"
  by (simp add: dedupe_def listing_a_def listing_b_def py_get_def u_def)

lemma detail_urls_two_listings:
  "detail_urls [listing_a, listing_b] = [PStr detail_url_a, PStr detail_url_b]"
  "detail_urls [listing_a] = [PStr detail_url_a]"
  by (simp_all add: detail_urls_def listing_a_def listing_b_def py_get_def detail_url_a_def
      detail_url_b_def u_def)

text \<open>The detail pages requested are those of the records handed to the enrichment.\<close>

lemma enrich_requests: "snd (enrich_with_details rt w properties) = detail_urls properties"
  by (simp add: enrich_with_details_def Let_def)

lemma index_html_nonempty: "u ''<html>2 biens</html>'' \<noteq> []"
  by (simp add: u_def)

lemma scrape_two_listing_requests:
  "snd (scrape plain_runtime two_listing_site (u ''paris'') (u ''buy'') (u ''all'') None limit True)
     = PStr (u ''https://www.bienici.com/recherche/achat/paris-75000'')
       # detail_urls (apply_limit limit [listing_a, listing_b])"
  by (simp add: scrape_def search_url_paris two_listing_site_def offline_site_def
      pages_to_scrape_def estimate_total_pages_def listings_per_page_def Let_def
      dedupe_two_listings enrich_requests index_html_nonempty)


lemma detail_url_a_not_search:
  "detail_url_a \<noteq> u ''https://www.bienici.com/recherche/achat/paris-75000''"
  "detail_url_b \<noteq> u ''https://www.bienici.com/recherche/achat/paris-75000''"
  "detail_url_b \<noteq> detail_url_a"
  "detail_url_a \<noteq> detail_url_b"
  by (simp_all add: detail_url_a_def detail_url_b_def u_def)





lemma listing_urls:
  "py_get listing_a ''url'' = PStr detail_url_a"
  "py_get listing_b ''url'' = PStr detail_url_b"
  by (simp_all add: listing_a_def listing_b_def py_get_def)

lemma prop_by_url_two_listings:
  "fold (\<lambda>p acc. AList.update (py_key (py_get p ''url'')) p acc) [listing_a, listing_b] [] =
     [(PStr detail_url_a, listing_a), (PStr detail_url_b, listing_b)]"
  by (simp add: listing_urls detail_url_a_not_search)













section \<open>Properties of the DPE date\<close>




section \<open>Properties of the limit\<close>

text \<open>
  Claim C5. On the site with two listings a limit of 0 truncates nothing: the scrape
  requests the search page and then both detail pages. (A limit of 1 requests the first
  detail page only.)
\<close>

theorem limit_zero_fetches_all_details:
  "snd (scrape plain_runtime two_listing_site (u ''paris'') (u ''buy'') (u ''all'') None
          (Some 0) True)
     = [PStr (u ''https://www.bienici.com/recherche/achat/paris-75000''),
        PStr detail_url_a, PStr detail_url_b]
   \<and> snd (scrape plain_runtime two_listing_site (u ''paris'') (u ''buy'') (u ''all'') None
          (Some 1) True)
     = [PStr (u ''https://www.bienici.com/recherche/achat/paris-75000''),
        PStr detail_url_a]"
  by (simp add: scrape_two_listing_requests apply_limit_def slice_to_def
      detail_urls_two_listings)

text \<open>
  For a limit of at least 1 the detail pages requested are those of the first \<open>n\<close>
  unique records.
\<close>

lemma positive_limit_bounds_detail_requests:
  "0 < n \<Longrightarrow>
   snd (enrich_with_details rt w (apply_limit (Some n) unique_properties)) =
     detail_urls (take (nat n) unique_properties)"
  by (simp add: enrich_requests apply_limit_def slice_to_def)

end
